theory Spec2Isabelle
  imports Main
begin

section \<open>Values shared by the client and its libraries\<close>

text \<open>
  The client of \<^verbatim>\<open>client/client.go\<close> is written against Go's standard library
  (\<^verbatim>\<open>strings\<close>, \<^verbatim>\<open>strconv\<close>, \<^verbatim>\<open>net/textproto\<close>, \<^verbatim>\<open>bufio\<close>, \<^verbatim>\<open>io\<close>).
  The library functions the client calls are modelled first, each under the name
  of the Go function it stands for; the client's own functions follow, one HOL
  function per Go function.

  A Go function that can panic returns an \<open>outcome\<close>: \<open>Panic\<close> is the runtime panic
  (here always an index out of range), \<open>Return\<close> an ordinary return. Go's multiple
  return values are tuples, and an \<^verbatim>\<open>error\<close> result is an \<open>error option\<close>
  (\<open>None\<close> is \<^verbatim>\<open>nil\<close>).
\<close>

datatype 'a outcome = Panic | Return 'a

datatype numerr = ErrSyntax | ErrRange

datatype error =
    EOF
  | ErrUnexpectedEOF
  | ErrShortWrite
  | ErrTooLong
  | TransportError
  | ProtocolError string
  | StatusError int string
  | NumError string numerr
  | ErrorString string
  | OtherError string

text \<open>
  \<open>EOF\<close>, \<open>ErrUnexpectedEOF\<close> and \<open>ErrShortWrite\<close> are the values of package
  \<^verbatim>\<open>io\<close>, \<open>ErrTooLong\<close> is \<^verbatim>\<open>bufio.ErrTooLong\<close>, \<open>ProtocolError\<close> is
  \<^verbatim>\<open>textproto.ProtocolError\<close>, \<open>StatusError code msg\<close> is \<^verbatim>\<open>&textproto.Error{code, msg}\<close>,
  \<open>NumError num e\<close> is \<^verbatim>\<open>&strconv.NumError{"ParseInt", num, e}\<close>, \<open>ErrorString\<close> is the
  result of \<^verbatim>\<open>errors.New\<close>, \<open>TransportError\<close> a failed write on the network
  connection, and \<open>OtherError\<close> any error produced by a collaborator (dialling,
  the caller's reader, the decompressor).
\<close>

text \<open>Slice indexing \<^verbatim>\<open>xs[i]\<close>: \<open>None\<close> is the index-out-of-range panic.\<close>

definition index :: "'a list \<Rightarrow> nat \<Rightarrow> 'a option" where
  "index xs i = (if i < length xs then Some (xs ! i) else None)"

section \<open>Package strings\<close>

text \<open>
  \<^verbatim>\<open>strings.Split(s, sep)\<close> for a one-byte separator: the pieces of \<open>s\<close> between
  the occurrences of \<open>sep\<close>, one more piece than there are separators (so the
  empty string gives one empty piece).
\<close>

fun strings_Split :: "string \<Rightarrow> char \<Rightarrow> string list" where
  "strings_Split [] sep = [[]]"
| "strings_Split (c # cs) sep =
     (if c = sep then [] # strings_Split cs sep
      else (case strings_Split cs sep of
              p # ps \<Rightarrow> (c # p) # ps
            | [] \<Rightarrow> [[c]]))"

text \<open>
  \<^verbatim>\<open>strings.SplitN(s, sep, 2)\<close> for a one-byte separator: at most two pieces, the
  text before the first separator and everything after it; a string without a
  separator is returned whole, as the only piece.
\<close>

definition strings_SplitN2 :: "string \<Rightarrow> char \<Rightarrow> string list" where
  "strings_SplitN2 s sep =
     (if sep \<in> set s
      then [takeWhile (\<lambda>c. c \<noteq> sep) s, tl (dropWhile (\<lambda>c. c \<noteq> sep) s)]
      else [s])"

section \<open>Package strconv\<close>

definition isDigit :: "char \<Rightarrow> bool" where
  "isDigit c = (48 \<le> (of_char c :: int) \<and> (of_char c :: int) \<le> 57)"

definition digitVal :: "char \<Rightarrow> int" where
  "digitVal c = of_char c - 48"

definition maxUint64 :: int where
  "maxUint64 = 18446744073709551615"

text \<open>
  The digit loop of \<^verbatim>\<open>strconv.ParseUint(s, 10, 64)\<close>, from the accumulated value
  \<open>n\<close>: a byte that is no decimal digit is a syntax error (value 0), an overflow
  of 64 bits is a range error (value \<open>maxUint64\<close>), whichever the loop meets
  first. The unsigned 64-bit value is an \<open>int\<close> between 0 and \<open>maxUint64\<close>.
\<close>

fun parseUintLoop :: "int \<Rightarrow> string \<Rightarrow> int \<times> numerr option" where
  "parseUintLoop n [] = (n, None)"
| "parseUintLoop n (c # cs) =
     (if \<not> isDigit c then (0, Some ErrSyntax)
      else if n \<ge> maxUint64 div 10 + 1 then (maxUint64, Some ErrRange)
      else if n * 10 + digitVal c > maxUint64 then (maxUint64, Some ErrRange)
      else parseUintLoop (n * 10 + digitVal c) cs)"

definition strconv_ParseUint :: "string \<Rightarrow> int \<times> numerr option" where
  "strconv_ParseUint s = (if s = [] then (0, Some ErrSyntax) else parseUintLoop 0 s)"

text \<open>
  \<^verbatim>\<open>strconv.ParseInt(s, 10, 64)\<close>: an optional sign, then \<^verbatim>\<open>ParseUint\<close>. A syntax
  error returns 0; a value outside the 64-bit signed range returns the nearest
  bound together with a range error.
\<close>

definition strconv_ParseInt :: "string \<Rightarrow> int \<times> error option" where
  "strconv_ParseInt s0 =
     (if s0 = [] then (0, Some (NumError s0 ErrSyntax))
      else
        let neg = (hd s0 = CHR ''-'');
            s = (if hd s0 = CHR ''+'' \<or> hd s0 = CHR ''-'' then tl s0 else s0);
            (un, e) = strconv_ParseUint s;
            cutoff = (9223372036854775808 :: int)
        in if e = Some ErrSyntax then (0, Some (NumError s0 ErrSyntax))
           else if \<not> neg \<and> un \<ge> cutoff then (cutoff - 1, Some (NumError s0 ErrRange))
           else if neg \<and> un > cutoff then (- cutoff, Some (NumError s0 ErrRange))
           else ((if neg then - un else un), None))"

section \<open>Package net/textproto: the connection\<close>

text \<open>
  A \<^verbatim>\<open>textproto.Conn\<close> between two exchanges (no dot reader or dot writer left
  open), at the level of lines:
  \<^item> \<open>pending\<close>: the lines the server delivers next, line terminators removed;
    once they are used up a read fails with \<open>EOF\<close>;
  \<^item> \<open>wlimit\<close>: the number of bytes the network connection still accepts before
    its writes fail (\<open>None\<close>: it never fails);
  \<^item> \<open>wbuf\<close>, \<open>werr\<close>: the buffer and the sticky error of the connection's
    \<^verbatim>\<open>bufio.Writer\<close>;
  \<^item> \<open>events\<close>: what has crossed the wire, newest first: \<open>Recv l\<close> for a line read,
    \<open>Sent bs\<close> for bytes accepted by the network connection (consecutive writes
    are merged into one event).
\<close>

datatype event = Sent string | Recv string

record Conn =
  pending :: "string list"
  wlimit :: "nat option"
  wbuf :: string
  werr :: "error option"
  events :: "event list"

fun emit :: "string \<Rightarrow> event list \<Rightarrow> event list" where
  "emit [] es = es"
| "emit bs (Sent as # es) = Sent (as @ bs) # es"
| "emit bs es = Sent bs # es"

text \<open>
  A write of \<open>bs\<close> on the network connection: the number of bytes written and
  the error.
\<close>

definition netWrite :: "string \<Rightarrow> Conn \<Rightarrow> nat \<times> error option \<times> Conn" where
  "netWrite bs c =
     (case wlimit c of
        None \<Rightarrow> (length bs, None, c\<lparr>events := emit bs (events c)\<rparr>)
      | Some k \<Rightarrow>
          if length bs \<le> k
          then (length bs, None, c\<lparr>wlimit := Some (k - length bs), events := emit bs (events c)\<rparr>)
          else (k, Some TransportError, c\<lparr>wlimit := Some 0, events := emit (take k bs) (events c)\<rparr>))"

definition defaultBufSize :: nat where
  "defaultBufSize = 4096"

text \<open>\<^verbatim>\<open>bufio.Writer.Flush\<close>.\<close>

definition bufio_Flush :: "Conn \<Rightarrow> error option \<times> Conn" where
  "bufio_Flush c =
     (if werr c \<noteq> None then (werr c, c)
      else if wbuf c = [] then (None, c)
      else
        case netWrite (wbuf c) c of (n, err0, c1) \<Rightarrow>
          let err = (if n < length (wbuf c) \<and> err0 = None then Some ErrShortWrite else err0)
          in if err \<noteq> None then (err, c1\<lparr>wbuf := drop n (wbuf c), werr := err\<rparr>)
             else (None, c1\<lparr>wbuf := []\<rparr>))"

text \<open>\<^verbatim>\<open>bufio.Writer.WriteByte\<close>.\<close>

definition bufio_WriteByte :: "char \<Rightarrow> Conn \<Rightarrow> error option \<times> Conn" where
  "bufio_WriteByte b c =
     (if werr c \<noteq> None then (werr c, c)
      else if length (wbuf c) \<ge> defaultBufSize
      then (case bufio_Flush c of (e, c1) \<Rightarrow>
              if e \<noteq> None then (werr c1, c1) else (None, c1\<lparr>wbuf := wbuf c1 @ [b]\<rparr>))
      else (None, c\<lparr>wbuf := wbuf c @ [b]\<rparr>))"

text \<open>
  \<^verbatim>\<open>bufio.Writer.Write\<close> where the caller drops its result (as \<^verbatim>\<open>PrintfLine\<close>
  and the dot writer's \<^verbatim>\<open>Close\<close> do): the bytes go through the buffer one after
  the other.
\<close>

fun bufio_Write :: "string \<Rightarrow> Conn \<Rightarrow> Conn" where
  "bufio_Write [] c = c"
| "bufio_Write (b # bs) c = bufio_Write bs (snd (bufio_WriteByte b c))"

definition crnl :: string where
  "crnl = [CHR 0x0D, CHR 0x0A]"

text \<open>
  \<^verbatim>\<open>Conn.PrintfLine\<close>, applied to the text already formatted: the text, CR LF,
  and a flush, whose error is the result. (\<^verbatim>\<open>Command\<close> and \<^verbatim>\<open>MultilineCommand\<close>
  pass the command itself as the format, without operands; a command without
  \<^verbatim>\<open>%\<close> is its own formatted text.)
\<close>

definition PrintfLine :: "string \<Rightarrow> Conn \<Rightarrow> error option \<times> Conn" where
  "PrintfLine text c = bufio_Flush (bufio_Write crnl (bufio_Write text c))"

text \<open>\<^verbatim>\<open>Reader.ReadLine\<close>: the next line, or \<open>EOF\<close>.\<close>

definition ReadLine :: "Conn \<Rightarrow> string \<times> error option \<times> Conn" where
  "ReadLine c =
     (case pending c of
        [] \<Rightarrow> ([], Some EOF, c)
      | l # ls \<Rightarrow> (l, None, c\<lparr>pending := ls, events := Recv l # events c\<rparr>))"

text \<open>
  \<^verbatim>\<open>parseCodeLine\<close> of net/textproto: a status line is three digits, a space
  (or \<^verbatim>\<open>-\<close> for a continued response) and the message. \<open>expectCode\<close> of one, two
  or three digits is compared with the code's first one, two or three digits.
  The code is read with \<^verbatim>\<open>strconv.Atoi\<close>, which is \<^verbatim>\<open>ParseInt(s, 10, 0)\<close> and so,
  on three bytes, gives the value and the failure of \<open>strconv_ParseInt\<close>.
\<close>

definition parseCodeLine :: "string \<Rightarrow> int \<Rightarrow> int \<times> bool \<times> string \<times> error option" where
  "parseCodeLine line expectCode =
     (if length line < 4 \<or> (line ! 3 \<noteq> CHR '' '' \<and> line ! 3 \<noteq> CHR ''-'')
      then (0, False, [], Some (ProtocolError (''short response: '' @ line)))
      else
        let continued = (line ! 3 = CHR ''-'');
            (code, aerr) = strconv_ParseInt (take 3 line)
        in if aerr \<noteq> None \<or> code < 100
           then (code, continued, [], Some (ProtocolError (''invalid response code: '' @ line)))
           else
             let message = drop 4 line
             in if (1 \<le> expectCode \<and> expectCode < 10 \<and> code div 100 \<noteq> expectCode)
                   \<or> (10 \<le> expectCode \<and> expectCode < 100 \<and> code div 10 \<noteq> expectCode)
                   \<or> (100 \<le> expectCode \<and> expectCode < 1000 \<and> code \<noteq> expectCode)
                then (code, continued, message, Some (StatusError code message))
                else (code, continued, message, None))"

text \<open>
  \<^verbatim>\<open>Reader.ReadCodeLine\<close>: one line read and parsed; a continued (multi-line)
  status is a protocol error.
\<close>

definition ReadCodeLine :: "int \<Rightarrow> Conn \<Rightarrow> int \<times> string \<times> error option \<times> Conn" where
  "ReadCodeLine expectCode c =
     (case ReadLine c of (line, rerr, c1) \<Rightarrow>
        if rerr \<noteq> None then (0, [], rerr, c1)
        else
          case parseCodeLine line expectCode of (code, continued, message, err) \<Rightarrow>
            if err = None \<and> continued
            then (code, message,
                  Some (ProtocolError (''unexpected multi-line response: '' @ message)), c1)
            else (code, message, err, c1))"

text \<open>
  \<^verbatim>\<open>Reader.ReadDotLines\<close> on the lines still to come: the decoded lines, the
  error, the raw lines consumed and the lines left. The block ends at a line
  that is a single dot; another line that starts with a dot loses that dot;
  running out of lines before the end is \<open>ErrUnexpectedEOF\<close>.
\<close>

fun dotLines :: "string list \<Rightarrow> string list \<times> error option \<times> string list \<times> string list" where
  "dotLines [] = ([], Some ErrUnexpectedEOF, [], [])"
| "dotLines (l # ls) =
     (if l = ''.'' then ([], None, [l], ls)
      else
        case dotLines ls of (v, err, used, rest) \<Rightarrow>
          ((if l \<noteq> [] \<and> hd l = CHR ''.'' then tl l else l) # v, err, l # used, rest))"

definition ReadDotLines :: "Conn \<Rightarrow> string list \<times> error option \<times> Conn" where
  "ReadDotLines c =
     (case dotLines (pending c) of (v, err, used, rest) \<Rightarrow>
        (v, err, c\<lparr>pending := rest, events := map Recv (rev used) @ events c\<rparr>))"

text \<open>
  \<^verbatim>\<open>CanonicalMIMEHeaderKey\<close>: a key made of header-field bytes only (letters,
  digits and the punctuation of an RFC 7230 token) gets an upper-case letter
  first and after each hyphen and lower-case letters elsewhere; any other key is
  returned unchanged.
\<close>

definition isLower :: "char \<Rightarrow> bool" where
  "isLower c = (97 \<le> (of_char c :: int) \<and> (of_char c :: int) \<le> 122)"

definition isUpper :: "char \<Rightarrow> bool" where
  "isUpper c = (65 \<le> (of_char c :: int) \<and> (of_char c :: int) \<le> 90)"

definition validHeaderFieldByte :: "char \<Rightarrow> bool" where
  "validHeaderFieldByte c =
     (isLower c \<or> isUpper c \<or> isDigit c \<or> c \<in> set ''!#$%&*+-.^_`|~'' \<or> c = CHR 0x27)"

fun canonLoop :: "bool \<Rightarrow> string \<Rightarrow> string" where
  "canonLoop upper [] = []"
| "canonLoop upper (c # cs) =
     (let c' = (if upper \<and> isLower c then char_of (of_char c - (32::int))
                else if \<not> upper \<and> isUpper c then char_of (of_char c + (32::int))
                else c)
      in c' # canonLoop (c' = CHR ''-'') cs)"

definition CanonicalMIMEHeaderKey :: "string \<Rightarrow> string" where
  "CanonicalMIMEHeaderKey s = (if list_all validHeaderFieldByte s then canonLoop True s else s)"

text \<open>
  \<^verbatim>\<open>textproto.MIMEHeader\<close> is a map from keys to lists of values;
  \<^verbatim>\<open>MIMEHeader.Set\<close> stores the one value under the canonical key.
\<close>

type_synonym MIMEHeader = "string \<rightharpoonup> string list"

definition MIMEHeader_Set :: "MIMEHeader \<Rightarrow> string \<Rightarrow> string \<Rightarrow> MIMEHeader" where
  "MIMEHeader_Set h key val = h(CanonicalMIMEHeaderKey key \<mapsto> [val])"

subsection \<open>The dot writer and io.Copy\<close>

datatype wstate = wstateBegin | wstateBeginLine | wstateCR | wstateData

definition CR :: char where
  "CR = CHR 0x0D"

definition LF :: char where
  "LF = CHR 0x0A"

text \<open>
  One round of the loop of \<^verbatim>\<open>dotWriter.Write\<close> before the byte itself is
  written: a dot at the start of a line is doubled, a bare LF gets a CR in
  front of it.
\<close>

definition dotStep :: "char \<Rightarrow> wstate \<Rightarrow> Conn \<Rightarrow> wstate \<times> Conn" where
  "dotStep b st c =
     (if st = wstateCR then ((if b = LF then wstateBeginLine else wstateData), c)
      else
        let c1 = (if st \<noteq> wstateData \<and> b = CHR ''.''
                  then snd (bufio_WriteByte CHR ''.'' c) else c)
        in if b = CR then (wstateCR, c1)
           else if b = LF then (wstateBeginLine, snd (bufio_WriteByte CR c1))
           else (wstateData, c1))"

text \<open>
  \<^verbatim>\<open>dotWriter.Write\<close>: the number of bytes of \<open>bs\<close> taken, the error, the
  writer's state and the connection. Only the write of the byte itself is
  checked for an error.
\<close>

fun dotWriter_Write :: "string \<Rightarrow> wstate \<Rightarrow> Conn \<Rightarrow> nat \<times> error option \<times> wstate \<times> Conn" where
  "dotWriter_Write [] st c = (0, None, st, c)"
| "dotWriter_Write (b # bs) st c =
     (case dotStep b st c of (st1, c1) \<Rightarrow>
        (case bufio_WriteByte b c1 of (err, c2) \<Rightarrow>
           if err \<noteq> None then (0, err, st1, c2)
           else
             (case dotWriter_Write bs st1 c2 of (n, err', st', c') \<Rightarrow> (Suc n, err', st', c'))))"

text \<open>
  \<^verbatim>\<open>dotWriter.Close\<close>: the line in progress is ended, the line with the single
  dot is written and the buffer is flushed.
\<close>

definition dotWriter_Close :: "wstate \<Rightarrow> Conn \<Rightarrow> error option \<times> Conn" where
  "dotWriter_Close st c =
     (let c1 = (if st = wstateBeginLine then c
                else if st = wstateCR then snd (bufio_WriteByte LF c)
                else snd (bufio_WriteByte LF (snd (bufio_WriteByte CR c))))
      in bufio_Flush (bufio_Write (CHR ''.'' # crnl) c1))"

text \<open>
  \<^verbatim>\<open>io.Copy(w, r)\<close> into a dot writer. The caller's reader \<open>r\<close> is the list of
  the chunks its successive reads deliver and the error that ends them (\<open>None\<close>:
  a plain end of file). The copy stops at the first failed or short write, or
  with the reader's error.
\<close>

fun io_Copy :: "string list \<Rightarrow> error option \<Rightarrow> wstate \<Rightarrow> Conn \<Rightarrow> error option \<times> wstate \<times> Conn" where
  "io_Copy [] rerr st c = (rerr, st, c)"
| "io_Copy (chunk # chunks) rerr st c =
     (case dotWriter_Write chunk st c of (nw, ew, st1, c1) \<Rightarrow>
        if ew \<noteq> None then (ew, st1, c1)
        else if nw \<noteq> length chunk then (Some ErrShortWrite, st1, c1)
        else io_Copy chunks rerr st1 c1)"

section \<open>The client\<close>

text \<open>
  The methods of \<^verbatim>\<open>Client\<close> use only its connection: each takes the \<open>Conn\<close>
  and returns it as the exchange leaves it, next to the method's results. The
  methods \<^verbatim>\<open>List\<close> and \<^verbatim>\<open>Group\<close> are \<open>ListCmd\<close> and \<open>GroupCmd\<close> here, \<open>Group\<close>
  being the record of a group. The loops of the methods are functions of their
  own, named after what they loop over.
\<close>

record Client =
  conn :: Conn
  Banner :: string

text \<open>
  \<^verbatim>\<open>New\<close> (client.go, line 24). The argument is what \<^verbatim>\<open>textproto.Dial\<close>
  returned: the error, or the connection on which the server's greeting is
  pending.
\<close>

definition New :: "error + Conn \<Rightarrow> error + Client" where
  "New dialed =
     (case dialed of
        Inl err \<Rightarrow> Inl err
      | Inr cn \<Rightarrow>
          (case ReadCodeLine 200 cn of (code, msg, err, cn1) \<Rightarrow>
             (case err of
                Some e \<Rightarrow> Inl e
              | None \<Rightarrow> Inr \<lparr>conn = cn1, Banner = msg\<rparr>)))"

text \<open>
  \<^verbatim>\<open>Client.Command\<close> (client.go, line 280). The command is the format of
  \<^verbatim>\<open>PrintfLine\<close>, with no operands: what is sent is the command as it stands as
  long as it has no \<^verbatim>\<open>%\<close>. The statements below are about the answers read, not
  about the bytes of the command.
\<close>

definition Command :: "Conn \<Rightarrow> string \<Rightarrow> int \<Rightarrow> int \<times> string \<times> error option \<times> Conn" where
  "Command c cmd expectCode =
     (case PrintfLine cmd c of (err, c1) \<Rightarrow>
        if err \<noteq> None then (0, [], err, c1)
        else ReadCodeLine expectCode c1)"

text \<open>\<^verbatim>\<open>Client.MultilineCommand\<close> (client.go, line 288).\<close>

definition MultilineCommand ::
    "Conn \<Rightarrow> string \<Rightarrow> int \<Rightarrow> int \<times> string list \<times> error option \<times> Conn" where
  "MultilineCommand c cmd expectCode =
     (case PrintfLine cmd c of (err, c1) \<Rightarrow>
        if err \<noteq> None then (0, [], err, c1)
        else
          (case ReadCodeLine expectCode c1 of (rc, l, err, c2) \<Rightarrow>
             if err \<noteq> None then (rc, [], err, c2)
             else
               (case ReadDotLines c2 of (ls, err, c3) \<Rightarrow> (rc, [l] @ ls, err, c3))))"

subsection \<open>LIST and GROUP\<close>

text \<open>
  Modelled from the spec: the type \<^verbatim>\<open>nntp.Group\<close> and the posting constants of
  the repository's root package are not among the sources. The group descriptor
  is the spec's record of name, article count, low and high watermark and
  posting permission, the permission one of permitted, moderated and not
  permitted; \<open>PostingUnset\<close> is the zero value Go gives a field nobody assigns.
\<close>

datatype PostingStatus = PostingUnset | PostingPermitted | PostingModerated | PostingNotPermitted

record Group =
  Name :: string
  Count :: int
  Low :: int
  High :: int
  Posting :: PostingStatus

definition zeroGroup :: Group where
  "zeroGroup = \<lparr>Name = [], Count = 0, Low = 0, High = 0, Posting = PostingUnset\<rparr>"

text \<open>\<^verbatim>\<open>parsePosting\<close> (client.go, line 65).\<close>

definition parsePosting :: "string \<Rightarrow> PostingStatus" where
  "parsePosting p =
     (if p = ''y'' then PostingPermitted
      else if p = ''m'' then PostingModerated
      else PostingNotPermitted)"

text \<open>
  The loop of \<^verbatim>\<open>Client.List\<close> over the lines of the block (client.go, lines
  87 to 99); \<open>rv\<close> is the slice built so far. \<^verbatim>\<open>parts[3]\<close> is read only when
  both numbers have parsed.
\<close>

fun listLoop :: "string list \<Rightarrow> Group list \<Rightarrow> Group list outcome" where
  "listLoop [] rv = Return rv"
| "listLoop (l # ls) rv =
     (let parts = strings_Split l CHR '' ''
      in (case index parts 1 of None \<Rightarrow> Panic | Some p1 \<Rightarrow>
         (case strconv_ParseInt p1 of (high, errh) \<Rightarrow>
         (case index parts 2 of None \<Rightarrow> Panic | Some p2 \<Rightarrow>
         (case strconv_ParseInt p2 of (low, errl) \<Rightarrow>
            if errh = None \<and> errl = None
            then (case index parts 0 of None \<Rightarrow> Panic | Some p0 \<Rightarrow>
                 (case index parts 3 of None \<Rightarrow> Panic | Some p3 \<Rightarrow>
                    listLoop ls
                      (rv @ [\<lparr>Name = p0, Count = 0, Low = low, High = high,
                              Posting = parsePosting p3\<rparr>])))
            else listLoop ls rv)))))"

text \<open>\<^verbatim>\<open>Client.List\<close> (client.go, line 76).\<close>

definition ListCmd :: "Conn \<Rightarrow> string \<Rightarrow> (Group list \<times> error option \<times> Conn) outcome" where
  "ListCmd c sub =
     (case Command c (''LIST '' @ sub) 215 of (code, msg, err, c1) \<Rightarrow>
        if err \<noteq> None then Return ([], err, c1)
        else
          (case ReadDotLines c1 of (groupLines, err, c2) \<Rightarrow>
             if err \<noteq> None then Return ([], err, c2)
             else
               (case listLoop groupLines [] of
                  Panic \<Rightarrow> Panic
                | Return rv \<Rightarrow> Return (rv, None, c2))))"

text \<open>
  \<^verbatim>\<open>Client.Group\<close> (client.go, line 104). The error built when the message does
  not have four fields is stored in \<^verbatim>\<open>err\<close> and the function goes on: the next
  statement assigns \<^verbatim>\<open>err\<close> again, so \<open>err0\<close> is never returned.
\<close>

definition GroupCmd :: "Conn \<Rightarrow> string \<Rightarrow> (Group \<times> error option \<times> Conn) outcome" where
  "GroupCmd c name =
     (case Command c (''GROUP '' @ name) 211 of (code, msg, cerr, c1) \<Rightarrow>
        if cerr \<noteq> None then Return (zeroGroup, cerr, c1)
        else
          let parts = strings_Split msg CHR '' '';
              err0 = (if length parts \<noteq> 4
                      then Some (ErrorString (''Don't know how to parse result: '' @ msg))
                      else None)
          in (case index parts 0 of None \<Rightarrow> Panic | Some p0 \<Rightarrow>
             (case strconv_ParseInt p0 of (cnt, e1) \<Rightarrow>
                let rv1 = zeroGroup\<lparr>Count := cnt\<rparr>
                in if e1 \<noteq> None then Return (rv1, e1, c1)
                   else
                     (case index parts 1 of None \<Rightarrow> Panic | Some p1 \<Rightarrow>
                     (case strconv_ParseInt p1 of (lo, e2) \<Rightarrow>
                        let rv2 = rv1\<lparr>Low := lo\<rparr>
                        in if e2 \<noteq> None then Return (rv2, e2, c1)
                           else
                             (case index parts 2 of None \<Rightarrow> Panic | Some p2 \<Rightarrow>
                             (case strconv_ParseInt p2 of (hi, e3) \<Rightarrow>
                                let rv3 = rv2\<lparr>High := hi\<rparr>
                                in if e3 \<noteq> None then Return (rv3, e3, c1)
                                   else
                                     (case index parts 3 of None \<Rightarrow> Panic | Some p3 \<Rightarrow>
                                        Return (rv3\<lparr>Name := p3\<rparr>, None, c1)))))))))"

subsection \<open>ARTICLE, HEAD and BODY\<close>

text \<open>
  \<^verbatim>\<open>Client.articleish\<close> (client.go, line 159). The reader it returns is the dot
  reader of the connection, which reads the block from the lines pending in the
  returned \<open>Conn\<close>.
\<close>

definition articleish :: "Conn \<Rightarrow> int \<Rightarrow> (int \<times> string \<times> error option \<times> Conn) outcome" where
  "articleish c expected =
     (case ReadCodeLine expected c of (code, msg, err, c1) \<Rightarrow>
        if err \<noteq> None then Return (0, [], err, c1)
        else
          let parts = strings_SplitN2 msg CHR '' ''
          in (case index parts 0 of None \<Rightarrow> Panic | Some p0 \<Rightarrow>
             (case strconv_ParseInt p0 of (n, err) \<Rightarrow>
                if err \<noteq> None then Return (0, [], err, c1)
                else
                  (case index parts 1 of None \<Rightarrow> Panic | Some p1 \<Rightarrow>
                     Return (n, p1, None, c1)))))"

text \<open>\<^verbatim>\<open>Client.Article\<close>, \<^verbatim>\<open>Client.Head\<close>, \<^verbatim>\<open>Client.Body\<close> (client.go, lines 133 to 157).\<close>

definition Article :: "Conn \<Rightarrow> string \<Rightarrow> (int \<times> string \<times> error option \<times> Conn) outcome" where
  "Article c specifier =
     (case PrintfLine (''ARTICLE '' @ specifier) c of (err, c1) \<Rightarrow>
        if err \<noteq> None then Return (0, [], err, c1) else articleish c1 220)"

definition Head :: "Conn \<Rightarrow> string \<Rightarrow> (int \<times> string \<times> error option \<times> Conn) outcome" where
  "Head c specifier =
     (case PrintfLine (''HEAD '' @ specifier) c of (err, c1) \<Rightarrow>
        if err \<noteq> None then Return (0, [], err, c1) else articleish c1 221)"

definition Body :: "Conn \<Rightarrow> string \<Rightarrow> (int \<times> string \<times> error option \<times> Conn) outcome" where
  "Body c specifier =
     (case PrintfLine (''BODY '' @ specifier) c of (err, c1) \<Rightarrow>
        if err \<noteq> None then Return (0, [], err, c1) else articleish c1 222)"

subsection \<open>XOVER\<close>

record Overview =
  Headers :: MIMEHeader
  Err :: "error option"

text \<open>
  What the consumer of the channel returned by \<^verbatim>\<open>XOver\<close> observes: the records
  sent, in order, and then either the channel's close or the panic of the
  producing goroutine.
\<close>

datatype overviewChan = Closed "Overview list" | Crashed "Overview list"

fun send :: "Overview \<Rightarrow> overviewChan \<Rightarrow> overviewChan" where
  "send ov (Closed ovs) = Closed (ov # ovs)"
| "send ov (Crashed ovs) = Crashed (ov # ovs)"

text \<open>\<^verbatim>\<open>headerFull[h]\<close>: a key that is not in the map reads as \<^verbatim>\<open>false\<close>.\<close>

definition isFull :: "(string \<rightharpoonup> bool) \<Rightarrow> string \<Rightarrow> bool" where
  "isFull headerFull h = (case headerFull h of Some b \<Rightarrow> b | None \<Rightarrow> False)"

text \<open>
  The loop of \<^verbatim>\<open>XOver\<close> over \<^verbatim>\<open>lines[1:]\<close> (client.go, lines 192 to 198): each
  line is cut at its first colon; the text before it is appended to the
  columns, and the column is full when the text after it is \<^verbatim>\<open>full\<close>.
\<close>

fun formatLoop ::
    "string list \<Rightarrow> string list \<Rightarrow> (string \<rightharpoonup> bool) \<Rightarrow> (string list \<times> (string \<rightharpoonup> bool)) outcome" where
  "formatLoop [] headers headerFull = Return (headers, headerFull)"
| "formatLoop (l # ls) headers headerFull =
     (let parts = strings_SplitN2 l CHR '':''
      in (case index parts 0 of None \<Rightarrow> Panic | Some h \<Rightarrow>
         (case index parts 1 of None \<Rightarrow> Panic | Some flag \<Rightarrow>
            formatLoop ls (headers @ [h]) (headerFull(h \<mapsto> (flag = ''full''))))))"

text \<open>
  The first part of \<^verbatim>\<open>XOver\<close> (client.go, lines 184 to 198): the columns and
  their flags, from the answer to \<^verbatim>\<open>LIST OVERVIEW.FMT\<close>. \<^verbatim>\<open>lines[0]\<close>, which the
  loop leaves out, is the message of the status line: \<^verbatim>\<open>MultilineCommand\<close> puts
  it in front of the lines of the block.
\<close>

definition XOver_format ::
    "Conn \<Rightarrow> ((string list \<times> (string \<rightharpoonup> bool)) option \<times> error option \<times> Conn) outcome" where
  "XOver_format c =
     (let headers = [''Article''];
          headerFull = Map.empty
      in (case MultilineCommand c ''LIST OVERVIEW.FMT'' 215 of (rc, lines, err, c1) \<Rightarrow>
            if err \<noteq> None then Return (None, err, c1)
            else
              (case lines of
                 [] \<Rightarrow> Panic
               | l0 # ls \<Rightarrow>
                   (case formatLoop ls headers headerFull of
                      Panic \<Rightarrow> Panic
                    | Return fmt \<Rightarrow> Return (Some fmt, None, c1)))))"

definition TAB :: char where
  "TAB = CHR 0x09"

text \<open>
  The loop over the fields of one overview line (client.go, lines 232 to 239),
  from field number \<open>i\<close> on; \<open>hdrs\<close> is the record built so far.
\<close>

fun fieldLoop ::
    "string list \<Rightarrow> (string \<rightharpoonup> bool) \<Rightarrow> nat \<Rightarrow> string list \<Rightarrow> MIMEHeader \<Rightarrow> MIMEHeader outcome" where
  "fieldLoop headers headerFull i [] hdrs = Return hdrs"
| "fieldLoop headers headerFull i (val # vals) hdrs =
     (case index headers i of None \<Rightarrow> Panic | Some h \<Rightarrow>
        if isFull headerFull h
        then (case index (strings_SplitN2 val CHR '':'') 1 of None \<Rightarrow> Panic | Some val' \<Rightarrow>
                fieldLoop headers headerFull (Suc i) vals (MIMEHeader_Set hdrs h val'))
        else fieldLoop headers headerFull (Suc i) vals (MIMEHeader_Set hdrs h val))"

definition decodeLine :: "string list \<Rightarrow> (string \<rightharpoonup> bool) \<Rightarrow> string \<Rightarrow> MIMEHeader outcome" where
  "decodeLine headers headerFull l =
     fieldLoop headers headerFull 0 (strings_Split l TAB) Map.empty"

definition MaxScanTokenSize :: nat where
  "MaxScanTokenSize = 65536"

text \<open>
  \<^verbatim>\<open>dropCR\<close> of package bufio: the line splitter of the scanner takes one
  trailing CR off the line it has cut at the LF.
\<close>

definition dropCR :: "string \<Rightarrow> string" where
  "dropCR data = (if data \<noteq> [] \<and> last data = CR then butlast data else data)"

text \<open>
  The loop of the goroutine (client.go, lines 228 to 244) over the lines its
  reader delivers, \<open>rerr\<close> being the error that ends them (\<open>None\<close>: a plain end).
  The scanner gives up with \<open>ErrTooLong\<close> on a line that does not fit its
  buffer, and hands over each other line without its trailing CR; an error of
  the scanner is sent as the last record.
\<close>

fun scanLoop ::
    "string list \<Rightarrow> (string \<rightharpoonup> bool) \<Rightarrow> string list \<Rightarrow> error option \<Rightarrow> overviewChan" where
  "scanLoop headers headerFull [] rerr =
     (case rerr of
        None \<Rightarrow> Closed []
      | Some e \<Rightarrow> Closed [\<lparr>Headers = Map.empty, Err = Some e\<rparr>])"
| "scanLoop headers headerFull (l # ls) rerr =
     (if length l \<ge> MaxScanTokenSize
      then Closed [\<lparr>Headers = Map.empty, Err = Some ErrTooLong\<rparr>]
      else
        (case decodeLine headers headerFull (dropCR l) of
           Panic \<Rightarrow> Crashed []
         | Return h \<Rightarrow>
             send \<lparr>Headers = h, Err = None\<rparr> (scanLoop headers headerFull ls rerr)))"

text \<open>
  The goroutine of \<^verbatim>\<open>XOver\<close> (client.go, lines 213 to 245), run to its end.
  Without compression it reads the dot block pending on the connection. With
  compression it reads through \<^verbatim>\<open>zlib.NewReader\<close>, whose result is the argument
  \<open>zr\<close>: the error of \<^verbatim>\<open>NewReader\<close>, or the decompressed lines and the error that
  ends them.
\<close>

definition XOver_stream ::
    "Conn \<Rightarrow> bool \<Rightarrow> error + (string list \<times> error option) \<Rightarrow>
     string list \<Rightarrow> (string \<rightharpoonup> bool) \<Rightarrow> overviewChan" where
  "XOver_stream c compress zr headers headerFull =
     (if compress
      then (case zr of
              Inl err \<Rightarrow> Closed [\<lparr>Headers = Map.empty, Err = Some err\<rparr>]
            | Inr (ls, rerr) \<Rightarrow> scanLoop headers headerFull ls rerr)
      else (case dotLines (pending c) of (ls, rerr, used, rest) \<Rightarrow>
              scanLoop headers headerFull ls rerr))"

text \<open>
  \<^verbatim>\<open>Client.XOver\<close> (client.go, line 179): the channel (\<open>None\<close> is \<^verbatim>\<open>nil\<close>), the
  error and the connection as \<^verbatim>\<open>XOver\<close> leaves it when it returns.
\<close>

definition XOver ::
    "Conn \<Rightarrow> string \<Rightarrow> bool \<Rightarrow> error + (string list \<times> error option) \<Rightarrow>
     (overviewChan option \<times> error option \<times> Conn) outcome" where
  "XOver c specifier compress zr =
     (let verb = (if compress then ''XZVER'' else ''XOVER'')
      in (case XOver_format c of
            Panic \<Rightarrow> Panic
          | Return (None, err, c1) \<Rightarrow> Return (None, err, c1)
          | Return (Some (headers, headerFull), err0, c1) \<Rightarrow>
              (case PrintfLine (verb @ '' '' @ specifier) c1 of (err, c2) \<Rightarrow>
                 if err \<noteq> None then Return (None, err, c2)
                 else
                   (case ReadCodeLine 224 c2 of (code, msg, err, c3) \<Rightarrow>
                      if err \<noteq> None then Return (None, err, c3)
                      else Return (Some (XOver_stream c3 compress zr headers headerFull),
                                   None, c3)))))"

subsection \<open>POST\<close>

text \<open>
  \<^verbatim>\<open>Client.Post\<close> (client.go, line 253); the reader is given as for \<open>io_Copy\<close>.
  The result of \<^verbatim>\<open>w.Close()\<close> is dropped.
\<close>

definition Post :: "Conn \<Rightarrow> string list \<Rightarrow> error option \<Rightarrow> error option \<times> Conn" where
  "Post c chunks rerr =
     (case PrintfLine ''POST'' c of (err, c1) \<Rightarrow>
        if err \<noteq> None then (err, c1)
        else
          (case ReadCodeLine 340 c1 of (code, msg, err, c2) \<Rightarrow>
             if err \<noteq> None then (err, c2)
             else
               (case io_Copy chunks rerr wstateBegin c2 of (err, st, c3) \<Rightarrow>
                  if err \<noteq> None then (err, c3)
                  else
                    (case dotWriter_Close st c3 of (cerr, c4) \<Rightarrow>
                       (case ReadCodeLine 240 c4 of (code', msg', err', c5) \<Rightarrow> (err', c5))))))"

section \<open>Inputs and observations used in the statements\<close>

text \<open>
  \<open>server ls\<close> is a connection just set up, on which the server's lines \<open>ls\<close>
  are pending and whose network writes never fail. \<open>result\<close> is what the caller
  of a method gets, without the connection.
\<close>

definition server :: "string list \<Rightarrow> Conn" where
  "server ls = \<lparr>pending = ls, wlimit = None, wbuf = [], werr = None, events = []\<rparr>"

fun result :: "('a \<times> error option \<times> Conn) outcome \<Rightarrow> ('a \<times> error option) outcome" where
  "result Panic = Panic"
| "result (Return (x, err, c)) = Return (x, err)"

text \<open>
  \<open>linePanics l\<close>: the line \<open>l\<close> of a LIST block has fewer than three fields, or
  exactly three of which the second and the third are integers. \<open>lineGroup l\<close>:
  the descriptor \<^verbatim>\<open>List\<close> appends for a line of four fields or more, if it
  appends one.
\<close>

definition linePanics :: "string \<Rightarrow> bool" where
  "linePanics l =
     (let parts = strings_Split l CHR '' ''
      in length parts < 3 \<or>
         (length parts = 3 \<and> snd (strconv_ParseInt (parts ! 1)) = None
                            \<and> snd (strconv_ParseInt (parts ! 2)) = None))"

definition lineGroup :: "string \<Rightarrow> Group option" where
  "lineGroup l =
     (let parts = strings_Split l CHR '' ''
      in if snd (strconv_ParseInt (parts ! 1)) = None \<and> snd (strconv_ParseInt (parts ! 2)) = None
         then Some \<lparr>Name = parts ! 0, Count = 0, Low = fst (strconv_ParseInt (parts ! 2)),
                     High = fst (strconv_ParseInt (parts ! 1)), Posting = parsePosting (parts ! 3)\<rparr>
         else None)"

text \<open>
  A line of the \<^verbatim>\<open>LIST OVERVIEW.FMT\<close> block: whether it has a colon, the text
  before its first colon and the text after it. \<open>columns\<close> reads the column list
  off the result of \<open>XOver_format\<close>.
\<close>

definition hasColon :: "string \<Rightarrow> bool" where
  "hasColon l = (CHR '':'' \<in> set l)"

definition columnName :: "string \<Rightarrow> string" where
  "columnName l = takeWhile (\<lambda>c. c \<noteq> CHR '':'') l"

definition columnFlag :: "string \<Rightarrow> string" where
  "columnFlag l = tl (dropWhile (\<lambda>c. c \<noteq> CHR '':'') l)"

fun columns ::
    "((string list \<times> (string \<rightharpoonup> bool)) option \<times> error option \<times> Conn) outcome \<Rightarrow> string list option" where
  "columns (Return (Some (hs, hf), err, c)) = Some hs"
| "columns (Return (None, err, c)) = None"
| "columns Panic = None"

text \<open>
  What has crossed the wire on a connection: \<open>received\<close>, the lines read
  (newest first), and \<open>sent\<close>, the bytes accepted by the network connection (in
  the order sent). \<open>sameInput c c'\<close>: between \<open>c\<close> and \<open>c'\<close> nothing was read.
\<close>

fun recvLine :: "event \<Rightarrow> string list" where
  "recvLine (Recv l) = [l]"
| "recvLine (Sent bs) = []"

fun payload :: "event \<Rightarrow> string" where
  "payload (Sent bs) = bs"
| "payload (Recv l) = []"

definition received :: "Conn \<Rightarrow> string list" where
  "received c = concat (map recvLine (events c))"

definition sent :: "Conn \<Rightarrow> string" where
  "sent c = concat (map payload (rev (events c)))"

definition sameInput :: "Conn \<Rightarrow> Conn \<Rightarrow> bool" where
  "sameInput c c' = (pending c' = pending c \<and> received c' = received c)"

lemmas wire_defs =
  server_def PrintfLine_def crnl_def bufio_Flush_def bufio_WriteByte_def defaultBufSize_def
  netWrite_def ReadCodeLine_def ReadLine_def ReadDotLines_def parseCodeLine_def Command_def
  MultilineCommand_def

lemmas parse_defs =
  strconv_ParseInt_def strconv_ParseUint_def isDigit_def digitVal_def maxUint64_def index_def
  strings_SplitN2_def Let_def

lemmas xover_defs =
  XOver_def XOver_format_def XOver_stream_def decodeLine_def MaxScanTokenSize_def TAB_def
  dropCR_def CR_def
  MIMEHeader_Set_def CanonicalMIMEHeaderKey_def validHeaderFieldByte_def isLower_def isUpper_def
  isFull_def

lemmas post_defs = dotStep_def dotWriter_Close_def CR_def LF_def

section \<open>Facts about the library functions\<close>

lemma strings_Split_nonempty: "strings_Split s sep \<noteq> []"
  by (induction s) (auto split: list.splits)

lemma parseUintLoop_step:
  "isDigit c \<Longrightarrow> 0 \<le> n \<Longrightarrow> n \<le> 99 \<Longrightarrow> parseUintLoop n (c # cs) = parseUintLoop (n * 10 + digitVal c) cs"
  by (simp add: isDigit_def digitVal_def maxUint64_def)

lemma parseUintLoop_digit:
  "parseUintLoop n (c # cs) = (v, None) \<Longrightarrow> isDigit c"
  by (simp split: if_splits)

lemma digitVal_range: "isDigit c \<Longrightarrow> 0 \<le> digitVal c \<and> digitVal c \<le> 9"
  by (simp add: isDigit_def digitVal_def)

lemma parseUintLoop_two:
  assumes "parseUintLoop 0 [b, c] = (v, None)"
  shows "isDigit b \<and> isDigit c \<and> v = 10 * digitVal b + digitVal c"
proof -
  have b: "isDigit b" using assms by (rule parseUintLoop_digit)
  then have 1: "parseUintLoop (digitVal b) [c] = (v, None)"
    using assms parseUintLoop_step [of b 0 "[c]"] by simp
  then have c: "isDigit c" by (rule parseUintLoop_digit)
  have "parseUintLoop (digitVal b) [c] = parseUintLoop (digitVal b * 10 + digitVal c) []"
    using c digitVal_range [OF b] by (intro parseUintLoop_step) auto
  with 1 b c show ?thesis by simp
qed

lemma parseUintLoop_three:
  assumes "parseUintLoop 0 [a, b, c] = (v, None)"
  shows "isDigit a \<and> isDigit b \<and> isDigit c \<and> v = 100 * digitVal a + 10 * digitVal b + digitVal c"
proof -
  have a: "isDigit a" using assms by (rule parseUintLoop_digit)
  then have 1: "parseUintLoop (digitVal a) [b, c] = (v, None)"
    using assms parseUintLoop_step [of a 0 "[b, c]"] by simp
  then have b: "isDigit b" by (rule parseUintLoop_digit)
  have "parseUintLoop (digitVal a) [b, c] = parseUintLoop (digitVal a * 10 + digitVal b) [c]"
    using b digitVal_range [OF a] by (intro parseUintLoop_step) auto
  with 1 have 2: "parseUintLoop (digitVal a * 10 + digitVal b) [c] = (v, None)" by simp
  then have c: "isDigit c" by (rule parseUintLoop_digit)
  have "parseUintLoop (digitVal a * 10 + digitVal b) [c]
        = parseUintLoop ((digitVal a * 10 + digitVal b) * 10 + digitVal c) []"
    using c digitVal_range [OF a] digitVal_range [OF b] by (intro parseUintLoop_step) auto
  with 2 a b c show ?thesis by simp
qed

lemma parseUintLoop_range:
  "parseUintLoop n s = (v, Some ErrRange) \<Longrightarrow> v = maxUint64"
  by (induction s arbitrary: n) (auto split: if_splits)

lemma ParseInt_ok:
  assumes "strconv_ParseInt s0 = (n, None)"
  shows "s0 \<noteq> [] \<and>
         (\<exists>un. strconv_ParseUint (if hd s0 = CHR ''+'' \<or> hd s0 = CHR ''-'' then tl s0 else s0) = (un, None)
               \<and> n = (if hd s0 = CHR ''-'' then - un else un))"
proof -
  let ?s = "if hd s0 = CHR ''+'' \<or> hd s0 = CHR ''-'' then tl s0 else s0"
  have ne: "s0 \<noteq> []" using assms by (auto simp: strconv_ParseInt_def)
  obtain un e where u: "strconv_ParseUint ?s = (un, e)" by (cases "strconv_ParseUint ?s")
  have "e \<noteq> Some ErrSyntax"
    using assms ne u by (auto simp: strconv_ParseInt_def Let_def)
  moreover have "e \<noteq> Some ErrRange"
  proof
    assume r: "e = Some ErrRange"
    with u have "un = maxUint64"
      by (auto simp: strconv_ParseUint_def split: if_splits dest: parseUintLoop_range)
    with assms ne u r show False
      by (auto simp: strconv_ParseInt_def Let_def maxUint64_def split: if_splits)
  qed
  ultimately have e: "e = None" by (cases e) (auto intro: numerr.exhaust)
  with assms ne u have "n = (if hd s0 = CHR ''-'' then - un else un)"
    by (auto simp: strconv_ParseInt_def Let_def split: if_splits)
  with ne u e show ?thesis by auto
qed

lemma ParseInt_three_digits:
  assumes "strconv_ParseInt [a, b, c] = (n, None)" and "100 \<le> n"
  shows "isDigit a \<and> isDigit b \<and> isDigit c \<and> n = 100 * digitVal a + 10 * digitVal b + digitVal c"
proof (cases "a = CHR ''+'' \<or> a = CHR ''-''")
  case True
  with ParseInt_ok [OF assms(1)] obtain un where
    u: "parseUintLoop 0 [b, c] = (un, None)" and n: "n = (if a = CHR ''-'' then - un else un)"
    by (auto simp: strconv_ParseUint_def)
  from parseUintLoop_two [OF u] have "0 \<le> un \<and> un \<le> 99"
    using digitVal_range [of b] digitVal_range [of c] by auto
  with n assms(2) show ?thesis by (auto split: if_splits)
next
  case False
  with ParseInt_ok [OF assms(1)] have "parseUintLoop 0 [a, b, c] = (n, None)"
    by (auto simp: strconv_ParseUint_def)
  then show ?thesis by (rule parseUintLoop_three)
qed

lemma digits3:
  fixes x y z n :: int
  assumes "0 \<le> y" "y \<le> 9" "0 \<le> z" "z \<le> 9" "n = 100 * x + 10 * y + z"
  shows "x = n div 100 \<and> y = n div 10 mod 10 \<and> z = n mod 10"
proof -
  have "0 \<le> 10 * y + z" "10 * y + z < 100" using assms by auto
  moreover have "n = x * 100 + (10 * y + z)" using assms by simp
  ultimately have x: "x = n div 100" by simp
  have n10: "n = z + (10 * x + y) * 10" using assms by simp
  with assms(3,4) have "n div 10 = x * 10 + y" by simp
  with assms(1,2) have y: "y = n div 10 mod 10" by simp
  have "n mod 10 = z mod 10" unfolding n10 by (rule mod_mult_self1)
  with assms(3,4) have z: "z = n mod 10" by simp
  from x y z show ?thesis by simp
qed

lemma digit_char: "isDigit c \<Longrightarrow> c = char_of (48 + digitVal c)"
  by (simp add: digitVal_def)

lemma ParseInt_three:
  assumes "strconv_ParseInt [a, b, c] = (n, None)" and "100 \<le> n"
  shows "[a, b, c] = [char_of (48 + n div 100), char_of (48 + n div 10 mod 10), char_of (48 + n mod 10)]"
proof -
  from ParseInt_three_digits [OF assms]
  have d: "isDigit a" "isDigit b" "isDigit c"
    and n: "n = 100 * digitVal a + 10 * digitVal b + digitVal c"
    by simp_all
  from digits3 [OF _ _ _ _ n] digitVal_range [OF d(2)] digitVal_range [OF d(3)]
  have "digitVal a = n div 100 \<and> digitVal b = n div 10 mod 10 \<and> digitVal c = n mod 10"
    by simp
  with digit_char [OF d(1)] digit_char [OF d(2)] digit_char [OF d(3)]
  show ?thesis by simp
qed

lemma parseCodeLine_ok:
  assumes "parseCodeLine line e = (code, cont, msg, None)"
  shows "4 \<le> length line"
    and "cont = (line ! 3 = CHR ''-'')"
    and "cont \<or> line ! 3 = CHR '' ''"
    and "strconv_ParseInt (take 3 line) = (code, None)"
    and "100 \<le> code"
    and "msg = drop 4 line"
    and "100 \<le> e \<Longrightarrow> e < 1000 \<Longrightarrow> code = e"
  using assms
  by (auto simp: parseCodeLine_def Let_def split: if_splits prod.splits)

lemma take3_nth: "4 \<le> length line \<Longrightarrow> take 3 line = [line ! 0, line ! 1, line ! 2]"
  by (cases line; cases "tl line"; cases "tl (tl line)") auto

lemma take4_nth: "4 \<le> length line \<Longrightarrow> take 4 line = [line ! 0, line ! 1, line ! 2, line ! 3]"
  by (cases line; cases "tl line"; cases "tl (tl line)"; cases "tl (tl (tl line))") auto

text \<open>
  A status read without error has consumed one line, a status line that is not
  continued; when the expected code has three digits, the line starts with
  these digits and a space.
\<close>

lemma ReadCodeLine_ok:
  assumes "ReadCodeLine e c = (code, msg, None, c1)"
  shows "\<exists>line rest. pending c = line # rest \<and> c1 = c\<lparr>pending := rest, events := Recv line # events c\<rparr>
           \<and> parseCodeLine line e = (code, False, msg, None)"
  using assms
  by (auto simp: ReadCodeLine_def ReadLine_def split: list.splits prod.splits if_splits)

lemma status_prefix:
  assumes "parseCodeLine line e = (code, False, msg, None)" and "100 \<le> e" and "e < 1000"
  shows "take 4 line = [char_of (48 + e div 100), char_of (48 + e div 10 mod 10), char_of (48 + e mod 10), CHR '' '']
         \<and> code = e \<and> msg = drop 4 line"
proof -
  note ok = parseCodeLine_ok [OF assms(1)]
  have code: "code = e" using ok(7) assms by simp
  have "strconv_ParseInt [line ! 0, line ! 1, line ! 2] = (e, None)"
    using ok(4) take3_nth [OF ok(1)] code by simp
  from ParseInt_three [OF this assms(2)] ok(3) take4_nth [OF ok(1)] ok(6) code
  show ?thesis by simp
qed

lemma take4_D:
  assumes "take 4 line = [a, b, c, d]"
  shows "4 \<le> length line \<and> take 3 line = [a, b, c] \<and> line ! 3 = d"
proof -
  have "length (take 4 line) = 4" using assms by simp
  then have len: "4 \<le> length line" by simp
  have "take 3 line = take 3 (take 4 line)" by simp
  then have t3: "take 3 line = [a, b, c]" using assms by simp
  have "line ! 3 = take 4 line ! 3" by simp
  then have "line ! 3 = d" using assms by simp
  with len t3 show ?thesis by simp
qed

section \<open>GROUP\<close>

text \<open>
  What \<open>GroupCmd\<close> does with a message of at least four fields whose first three
  are integers: it returns the descriptor made of the first four fields and no
  error, whether or not more fields follow.
\<close>

lemma Group_first_four_fields:
  assumes "Command c (''GROUP '' @ name) 211 = (code, msg, None, c1)"
    and "strings_Split msg CHR '' '' = a # b # d # nm # extra"
    and "strconv_ParseInt a = (cnt, None)"
    and "strconv_ParseInt b = (lo, None)"
    and "strconv_ParseInt d = (hi, None)"
  shows "GroupCmd c name =
           Return (\<lparr>Name = nm, Count = cnt, Low = lo, High = hi, Posting = PostingUnset\<rparr>, None, c1)"
  using assms by (simp add: GroupCmd_def index_def zeroGroup_def)

text \<open>
  C1. The claim: a GROUP message that does not split into exactly four fields
  gives an error describing the text and no populated descriptor. The code
  builds that error and then goes on (no return follows the assignment at
  client.go, line 113): on the five-field message \<^verbatim>\<open>10 1 10 misc.test extra\<close> it
  returns the populated descriptor and a nil error, and on the three-field
  message \<^verbatim>\<open>10 1 10\<close> it panics at \<^verbatim>\<open>parts[3]\<close>.
\<close>

theorem Group_field_count_not_enforced:
  "result (GroupCmd (server [''211 10 1 10 misc.test extra'']) ''misc.test'')
     = Return (\<lparr>Name = ''misc.test'', Count = 10, Low = 1, High = 10, Posting = PostingUnset\<rparr>, None)
   \<and> GroupCmd (server [''211 10 1 10'']) ''misc.test'' = Panic"
  by (simp add: GroupCmd_def zeroGroup_def wire_defs parse_defs)

section \<open>The greeting\<close>

lemma parseCodeLine_200:
  assumes "take 4 line = ''200 ''"
  shows "parseCodeLine line 200 = (200, False, drop 4 line, None)"
proof -
  from take4_D [OF assms]
  have "4 \<le> length line" "take 3 line = ''200''" "line ! 3 = CHR '' ''" by simp_all
  then show ?thesis by (simp add: parseCodeLine_def parse_defs)
qed

text \<open>
  C2, as the code has it. \<open>New\<close> succeeds exactly when the dial succeeded and the
  greeting line is \<^verbatim>\<open>200\<close>, a space and a text; the banner is that text. Any
  other outcome is an error: the dial's, the end of the input, or the one of a
  greeting that is not a status line of code 200 (201 included).
\<close>

theorem New_accepts_exactly_200:
  "New dialed = Inr cl \<longleftrightarrow>
     (\<exists>cn line rest.
        dialed = Inr cn \<and> pending cn = line # rest \<and> take 4 line = ''200 '' \<and>
        cl = \<lparr>conn = cn\<lparr>pending := rest, events := Recv line # events cn\<rparr>, Banner = drop 4 line\<rparr>)"
proof
  assume ok: "New dialed = Inr cl"
  then obtain cn where d: "dialed = Inr cn"
    by (cases dialed) (simp_all add: New_def)
  obtain code msg err cn1 where r: "ReadCodeLine 200 cn = (code, msg, err, cn1)"
    by (cases "ReadCodeLine 200 cn") auto
  from ok d r have e: "err = None" and cl: "cl = \<lparr>conn = cn1, Banner = msg\<rparr>"
    by (auto simp: New_def split: option.splits)
  from ReadCodeLine_ok [OF r [unfolded e]] obtain line rest where
    p: "pending cn = line # rest"
    and c1: "cn1 = cn\<lparr>pending := rest, events := Recv line # events cn\<rparr>"
    and pc: "parseCodeLine line 200 = (code, False, msg, None)"
    by blast
  from status_prefix [OF pc] have "take 4 line = ''200 ''" and "msg = drop 4 line"
    by (simp_all add: char_of_def)
  with d p c1 cl show "\<exists>cn line rest.
        dialed = Inr cn \<and> pending cn = line # rest \<and> take 4 line = ''200 '' \<and>
        cl = \<lparr>conn = cn\<lparr>pending := rest, events := Recv line # events cn\<rparr>, Banner = drop 4 line\<rparr>"
    by blast
next
  assume "\<exists>cn line rest.
        dialed = Inr cn \<and> pending cn = line # rest \<and> take 4 line = ''200 '' \<and>
        cl = \<lparr>conn = cn\<lparr>pending := rest, events := Recv line # events cn\<rparr>, Banner = drop 4 line\<rparr>"
  then obtain cn line rest where d: "dialed = Inr cn" and p: "pending cn = line # rest"
    and t: "take 4 line = ''200 ''"
    and cl: "cl = \<lparr>conn = cn\<lparr>pending := rest, events := Recv line # events cn\<rparr>, Banner = drop 4 line\<rparr>"
    by blast
  from p parseCodeLine_200 [OF t]
  have "ReadCodeLine 200 cn
          = (200, drop 4 line, None, cn\<lparr>pending := rest, events := Recv line # events cn\<rparr>)"
    by (simp add: ReadCodeLine_def ReadLine_def)
  with d cl show "New dialed = Inr cl" by (simp add: New_def)
qed

theorem New_accepts_exactly_200_witness:
  "New (Inr (server [''200 server ready'']))
     = Inr \<lparr>conn = (server [''200 server ready''])
                      \<lparr>pending := [], events := [Recv ''200 server ready'']\<rparr>,
            Banner = ''server ready''\<rparr>"
  using New_accepts_exactly_200
          [of "Inr (server [''200 server ready''])"
              "\<lparr>conn = (server [''200 server ready''])
                         \<lparr>pending := [], events := [Recv ''200 server ready'']\<rparr>,
                Banner = ''server ready''\<rparr>"]
  by (simp add: server_def)

text \<open>
  C2, as the spec has it, fails: the greeting \<^verbatim>\<open>201 server ready, no posting\<close> has
  a code of class 2 and \<open>New\<close> answers with the error of an unexpected status.
\<close>

theorem New_rejects_201:
  "New (Inr (server [''201 server ready, no posting'']))
     = Inl (StatusError 201 ''server ready, no posting'')"
  by (simp add: New_def wire_defs parse_defs)

section \<open>LIST\<close>

lemma listLoop_panics_line: "linePanics l \<Longrightarrow> listLoop (l # ls) rv = Panic"
  by (auto simp: linePanics_def index_def Let_def split: prod.splits)

lemma listLoop_passes_line:
  "\<not> linePanics l \<Longrightarrow> listLoop (l # ls) rv = listLoop ls (rv @ (case lineGroup l of None \<Rightarrow> [] | Some g \<Rightarrow> [g]))"
  by (auto simp: linePanics_def lineGroup_def index_def Let_def split: prod.splits)

lemma listLoop_Panic_iff: "listLoop ls rv = Panic \<longleftrightarrow> list_ex linePanics ls"
proof (induction ls arbitrary: rv)
  case Nil
  show ?case by simp
next
  case (Cons l ls)
  show ?case
  proof (cases "linePanics l")
    case True
    then show ?thesis by (simp add: listLoop_panics_line del: listLoop.simps)
  next
    case False
    then show ?thesis using Cons.IH by (simp add: listLoop_passes_line del: listLoop.simps)
  qed
qed

lemma listLoop_Return:
  "\<not> list_ex linePanics ls \<Longrightarrow> listLoop ls rv = Return (rv @ List.map_filter lineGroup ls)"
proof (induction ls arbitrary: rv)
  case Nil
  show ?case by (simp add: List.map_filter_simps)
next
  case (Cons l ls)
  then show ?case
    by (cases "lineGroup l") (simp_all add: listLoop_passes_line List.map_filter_simps del: listLoop.simps)
qed

text \<open>
  What \<open>ListCmd\<close> does when every line of the block has four fields or more: the
  lines whose second and third fields are integers give the descriptors, in
  order, and the other lines are left out; no error is returned.
\<close>

lemma List_four_field_lines:
  assumes "Command c (''LIST '' @ sub) 215 = (code, msg, None, c1)"
    and "ReadDotLines c1 = (ls, None, c2)"
    and "list_all (\<lambda>l. 4 \<le> length (strings_Split l CHR '' '')) ls"
  shows "ListCmd c sub = Return (List.map_filter lineGroup ls, None, c2)"
proof -
  have "\<not> list_ex linePanics ls"
    using assms(3) by (induction ls) (auto simp: linePanics_def Let_def)
  from listLoop_Return [OF this, of "[]"] assms(1,2) show ?thesis
    by (simp add: ListCmd_def)
qed

text \<open>
  C6. The claim: a line whose numbers do not parse is skipped and malformed
  lines never abort the listing. A line with a name only has no second field:
  the loop reads \<^verbatim>\<open>parts[1]\<close> unchecked (client.go, line 89) and panics, and the
  descriptor of the line before it is lost with the listing.
\<close>

theorem List_short_line_aborts:
  "ListCmd (server [''215 list follows'', ''a.b 10 1 y'', ''misc.test'', ''c.d 5 2 n'', ''.'']) [] = Panic"
  by (simp add: ListCmd_def wire_defs parse_defs)

text \<open>
  C9, as the code has it. Once LIST is answered by 215 and a complete block,
  \<open>ListCmd\<close> panics exactly when some line has fewer than three fields, or has
  three fields of which the second and the third are integers (the panic is
  then at \<^verbatim>\<open>parts[3]\<close>).
\<close>

theorem List_panics_iff:
  assumes "Command c (''LIST '' @ sub) 215 = (code, msg, None, c1)"
    and "ReadDotLines c1 = (ls, None, c2)"
  shows "ListCmd c sub = Panic \<longleftrightarrow> list_ex linePanics ls"
  using assms listLoop_Panic_iff [of ls "[]"]
  by (cases "listLoop ls []") (simp_all add: ListCmd_def)

theorem List_panics_iff_witness:
  "ListCmd (server [''215 list follows'', ''a.b 10 1 y'', ''c.d 1 2'', ''.'']) [] = Panic"
proof -
  let ?c = "server [''215 list follows'', ''a.b 10 1 y'', ''c.d 1 2'', ''.'']"
  let ?c1 = "snd (snd (snd (Command ?c (''LIST '' @ []) 215)))"
  let ?c2 = "snd (snd (ReadDotLines ?c1))"
  have 1: "Command ?c (''LIST '' @ []) 215 = (215, ''list follows'', None, ?c1)"
    by (simp add: wire_defs parse_defs)
  have 2: "ReadDotLines ?c1 = ([''a.b 10 1 y'', ''c.d 1 2''], None, ?c2)"
    by (simp add: wire_defs parse_defs)
  from List_panics_iff [OF 1 2] show ?thesis
    by (simp add: linePanics_def parse_defs)
qed

text \<open>
  C9, as stated, fails: the line \<^verbatim>\<open>a b c\<close> has three fields, fewer than four, and
  \<open>ListCmd\<close> skips it without a panic, since \<^verbatim>\<open>parts[3]\<close> is read only after both
  numbers have parsed.
\<close>

theorem List_three_fields_skipped:
  "length (strings_Split ''a b c'' CHR '' '') = 3
   \<and> result (ListCmd (server [''215 list follows'', ''a b c'', ''.'']) []) = Return ([], None)"
  by (simp add: ListCmd_def wire_defs parse_defs)

section \<open>ARTICLE, HEAD and BODY\<close>

text \<open>
  What \<open>articleish\<close> does with the message of an accepted status line: an error
  when the text before the first space is no integer, the number and the rest
  when there is a space, and a panic at \<^verbatim>\<open>parts[1]\<close> when the message is an
  integer and nothing else.
\<close>

lemma articleish_cases:
  assumes "ReadCodeLine expected c = (code, msg, None, c1)"
  shows "articleish c expected =
           (case strconv_ParseInt (takeWhile (\<lambda>c. c \<noteq> CHR '' '') msg) of
              (n, Some e) \<Rightarrow> Return (0, [], Some e, c1)
            | (n, None) \<Rightarrow>
                if CHR '' '' \<in> set msg
                then Return (n, tl (dropWhile (\<lambda>c. c \<noteq> CHR '' '') msg), None, c1)
                else Panic)"
proof -
  obtain n e where p: "strconv_ParseInt (takeWhile (\<lambda>c. c \<noteq> CHR '' '') msg) = (n, e)"
    by (cases "strconv_ParseInt (takeWhile (\<lambda>c. c \<noteq> CHR '' '') msg)")
  show ?thesis
  proof (cases "CHR '' '' \<in> set msg")
    case True
    then have "strings_SplitN2 msg CHR '' ''
                 = [takeWhile (\<lambda>c. c \<noteq> CHR '' '') msg, tl (dropWhile (\<lambda>c. c \<noteq> CHR '' '') msg)]"
      by (simp add: strings_SplitN2_def)
    with assms True p show ?thesis
      by (cases e) (simp_all add: articleish_def index_def)
  next
    case False
    then have "takeWhile (\<lambda>c. c \<noteq> CHR '' '') msg = msg"
      by (auto simp: takeWhile_eq_all_conv)
    with p have p': "strconv_ParseInt msg = (n, e)" by simp
    from False have "strings_SplitN2 msg CHR '' '' = [msg]"
      by (simp add: strings_SplitN2_def)
    with assms False p p' show ?thesis
      by (cases e) (simp_all add: articleish_def index_def)
  qed
qed

text \<open>
  C5. The claim: a status message that cannot be split in two parts is an
  ordinary error. The status lines \<^verbatim>\<open>220 123\<close>, \<^verbatim>\<open>221 123\<close> and \<^verbatim>\<open>222 123\<close> carry
  the number alone: \<^verbatim>\<open>SplitN\<close> gives one part, the number parses, and
  \<^verbatim>\<open>parts[1]\<close> (client.go, line 169) panics.
\<close>

theorem articleish_number_only_panics:
  "Article (server [''220 123'']) ''<a@b>'' = Panic
   \<and> Head (server [''221 123'']) ''<a@b>'' = Panic
   \<and> Body (server [''222 123'']) ''<a@b>'' = Panic"
  by (simp add: Article_def Head_def Body_def articleish_def wire_defs parse_defs)

section \<open>XOVER: the columns\<close>


lemma formatLoop_passes_line:
  "hasColon l \<Longrightarrow> formatLoop (l # ls) hs hf
       = formatLoop ls (hs @ [columnName l]) (hf(columnName l \<mapsto> (columnFlag l = ''full'')))"
  by (simp add: hasColon_def columnName_def columnFlag_def strings_SplitN2_def index_def)


lemma formatLoop_columns:
  "list_all hasColon ls \<Longrightarrow> \<exists>hf'. formatLoop ls hs hf = Return (hs @ map columnName ls, hf')"
proof (induction ls arbitrary: hs hf)
  case Nil
  show ?case by simp
next
  case (Cons l ls)
  from Cons.prems have c: "hasColon l" and r: "list_all hasColon ls" by simp_all
  from Cons.IH [OF r, of "hs @ [columnName l]" "hf(columnName l \<mapsto> (columnFlag l = ''full''))"]
  obtain hf' where
    "formatLoop ls (hs @ [columnName l]) (hf(columnName l \<mapsto> (columnFlag l = ''full'')))
       = Return ((hs @ [columnName l]) @ map columnName ls, hf')"
    by blast
  then show ?case by (simp add: formatLoop_passes_line [OF c] del: formatLoop.simps)
qed




lemma XOver_format_ok:
  assumes "PrintfLine ''LIST OVERVIEW.FMT'' c = (None, c1)"
    and "ReadCodeLine 215 c1 = (rc, msg, None, c2)"
    and "ReadDotLines c2 = (block, None, c3)"
  shows "XOver_format c =
           (case formatLoop block [''Article''] Map.empty of
              Panic \<Rightarrow> Panic
            | Return fmt \<Rightarrow> Return (Some fmt, None, c3))"
  using assms by (simp add: XOver_format_def MultilineCommand_def)

text \<open>
  C3, as the code has it. Once \<^verbatim>\<open>LIST OVERVIEW.FMT\<close> is answered by 215 and a
  complete block whose lines all have a colon, the columns are \<^verbatim>\<open>Article\<close>
  followed by the names of all the lines of the block, in the server's order:
  what is left out is the message of the status line, not a line of the block.
\<close>

theorem XOver_format_columns:
  assumes "PrintfLine ''LIST OVERVIEW.FMT'' c = (None, c1)"
    and "ReadCodeLine 215 c1 = (rc, msg, None, c2)"
    and "ReadDotLines c2 = (block, None, c3)"
    and "list_all hasColon block"
  shows "\<exists>hf. XOver_format c = Return (Some (''Article'' # map columnName block, hf), None, c3)"
proof -
  from formatLoop_columns [OF assms(4), of "[''Article'']" Map.empty]
  obtain hf where "formatLoop block [''Article''] Map.empty = Return ([''Article''] @ map columnName block, hf)"
    by blast
  with XOver_format_ok [OF assms(1-3)] show ?thesis by simp
qed

theorem XOver_format_columns_witness:
  "columns (XOver_format (server [''215 Order of fields in overview database.'',
                                  ''Subject:'', ''From:'', ''Xref:full'', ''.'']))
     = Some [''Article'', ''Subject'', ''From'', ''Xref'']"
proof -
  let ?c = "server [''215 Order of fields in overview database.'', ''Subject:'', ''From:'', ''Xref:full'', ''.'']"
  let ?c1 = "snd (PrintfLine ''LIST OVERVIEW.FMT'' ?c)"
  let ?c2 = "snd (snd (snd (ReadCodeLine 215 ?c1)))"
  let ?c3 = "snd (snd (ReadDotLines ?c2))"
  have 1: "PrintfLine ''LIST OVERVIEW.FMT'' ?c = (None, ?c1)"
    by (simp add: wire_defs)
  have 2: "ReadCodeLine 215 ?c1 = (215, ''Order of fields in overview database.'', None, ?c2)"
    by (simp add: wire_defs parse_defs)
  have 3: "ReadDotLines ?c2 = ([''Subject:'', ''From:'', ''Xref:full''], None, ?c3)"
    by (simp add: wire_defs parse_defs)
  have 4: "list_all hasColon [''Subject:'', ''From:'', ''Xref:full'']"
    by (simp add: hasColon_def)
  from XOver_format_columns [OF 1 2 3 4] show ?thesis
    by (auto simp: columnName_def)
qed

text \<open>
  C3, as stated, fails: with the block \<^verbatim>\<open>Subject:\<close>, \<^verbatim>\<open>From:\<close> the first line of the
  block is not discarded; it gives the column \<^verbatim>\<open>Subject\<close>.
\<close>

theorem XOver_format_keeps_first_block_line:
  "columns (XOver_format (server [''215 Order of fields in overview database.'',
                                  ''Subject:'', ''From:'', ''.'']))
     = Some [''Article'', ''Subject'', ''From'']
   \<and> columns (XOver_format (server [''215 Order of fields in overview database.'',
                                  ''Subject:'', ''From:'', ''.'']))
     \<noteq> Some (''Article'' # map columnName (tl [''Subject:'', ''From:'']))"
  by (simp add: XOver_format_def wire_defs parse_defs columnName_def)



section \<open>XOVER: the records\<close>

text \<open>
  A line with more fields than there are columns always panics (at
  \<^verbatim>\<open>headers[i]\<close>, client.go, line 233, unless a full column without a colon has
  panicked before). The value of a full column that has no colon panics too (at
  \<^verbatim>\<open>parts[1]\<close>, client.go, line 236), whatever the number of fields. A line with
  no more fields than columns, whose values for the full columns have a colon,
  gives a record.
\<close>

lemma fieldLoop_full_without_colon:
  assumes "index headers i = Some h" and "isFull headerFull h" and "CHR '':'' \<notin> set val"
  shows "fieldLoop headers headerFull i (val # vals) hdrs = Panic"
  using assms by (simp add: strings_SplitN2_def index_def)

lemma fieldLoop_extra_fields:
  "i \<le> length headers \<Longrightarrow> length headers < i + length vals \<Longrightarrow>
     fieldLoop headers headerFull i vals hdrs = Panic"
proof (induction vals arbitrary: i hdrs)
  case Nil
  then show ?case by simp
next
  case (Cons v vs)
  show ?case
  proof (cases "i < length headers")
    case False
    then show ?thesis by (simp add: index_def)
  next
    case True
    with Cons.prems have "Suc i \<le> length headers" "length headers < Suc i + length vs" by simp_all
    from Cons.IH [OF this] True show ?thesis
      by (simp add: index_def split: option.splits)
  qed
qed

lemma decodeLine_extra_fields:
  "length headers < length (strings_Split l TAB) \<Longrightarrow> decodeLine headers headerFull l = Panic"
  by (simp add: decodeLine_def fieldLoop_extra_fields)

lemma fieldLoop_fewer_fields:
  "i + length vals \<le> length headers \<Longrightarrow>
   (\<forall>j < length vals. isFull headerFull (headers ! (i + j)) \<longrightarrow> CHR '':'' \<in> set (vals ! j)) \<Longrightarrow>
     \<exists>h. fieldLoop headers headerFull i vals hdrs = Return h"
proof (induction vals arbitrary: i hdrs)
  case Nil
  then show ?case by simp
next
  case (Cons v vs)
  from Cons.prems(1) have i: "i < length headers" and le: "Suc i + length vs \<le> length headers"
    by simp_all
  have rest: "\<forall>j < length vs. isFull headerFull (headers ! (Suc i + j)) \<longrightarrow> CHR '':'' \<in> set (vs ! j)"
  proof (intro allI impI)
    fix j assume "j < length vs" and "isFull headerFull (headers ! (Suc i + j))"
    with Cons.prems(2) [rule_format, of "Suc j"] show "CHR '':'' \<in> set (vs ! j)" by simp
  qed
  have first: "isFull headerFull (headers ! i) \<Longrightarrow> CHR '':'' \<in> set v"
    using Cons.prems(2) [rule_format, of 0] by simp
  show ?case
  proof (cases "isFull headerFull (headers ! i)")
    case True
    with first have "strings_SplitN2 v CHR '':''
        = [takeWhile (\<lambda>c. c \<noteq> CHR '':'') v, tl (dropWhile (\<lambda>c. c \<noteq> CHR '':'') v)]"
      by (simp add: strings_SplitN2_def)
    with True i Cons.IH [OF le rest] show ?thesis by (simp add: index_def)
  next
    case False
    with i Cons.IH [OF le rest] show ?thesis by (simp add: index_def)
  qed
qed

text \<open>
  C8. With the columns Article, Subject (full) and Bytes, the line
  \<^verbatim>\<open>1<TAB>subj:hello<TAB>100\<close> is decoded into the record that maps Article to
  \<^verbatim>\<open>1\<close>, Subject to \<^verbatim>\<open>hello\<close> and Bytes to \<^verbatim>\<open>100\<close>; and so it is when the
  columns come from the server's \<^verbatim>\<open>LIST OVERVIEW.FMT\<close> block and the line from
  its XOVER block.
\<close>

theorem XOver_decodes_example:
  "decodeLine [''Article'', ''Subject'', ''Bytes''] [''Subject'' \<mapsto> True, ''Bytes'' \<mapsto> False]
      (''1'' @ [TAB] @ ''subj:hello'' @ [TAB] @ ''100'')
     = Return [''Article'' \<mapsto> [''1''], ''Subject'' \<mapsto> [''hello''], ''Bytes'' \<mapsto> [''100'']]
   \<and> result (XOver (server [''215 Order of fields in overview database.'',
                            ''Subject:full'', ''Bytes:'', ''.'',
                            ''224 Overview information follows'',
                            ''1'' @ [TAB] @ ''subj:hello'' @ [TAB] @ ''100'', ''.''])
                   ''1'' False (Inl EOF))
     = Return (Some (Closed [\<lparr>Headers = [''Article'' \<mapsto> [''1''], ''Subject'' \<mapsto> [''hello''],
                                          ''Bytes'' \<mapsto> [''100'']],
                              Err = None\<rparr>]), None)"
  by (simp add: xover_defs wire_defs parse_defs)

text \<open>
  C4. The claim: a line with more or fewer fields than columns does not abort
  the stream. With the columns Article and Subject, the second of three lines
  has a third field: the goroutine panics at \<^verbatim>\<open>headers[i]\<close> after the first
  record was sent, and neither the second nor the third line gives a record.
\<close>

theorem XOver_extra_field_panics:
  "result (XOver (server [''215 Order of fields in overview database.'', ''Subject:'', ''.'',
                            ''224 Overview information follows'',
                            ''1'' @ [TAB] @ ''first'',
                            ''2'' @ [TAB] @ ''second'' @ [TAB] @ ''extra'',
                            ''3'' @ [TAB] @ ''third'', ''.''])
                   ''1-3'' False (Inl EOF))
     = Return (Some (Crashed [\<lparr>Headers = [''Article'' \<mapsto> [''1''], ''Subject'' \<mapsto> [''first'']],
                               Err = None\<rparr>]), None)"
  by (simp add: xover_defs wire_defs parse_defs)

section \<open>POST\<close>

text \<open>Writing reads nothing: the writer's operations leave the input as it is.\<close>

lemma sameInput_refl: "sameInput c c"
  by (simp add: sameInput_def)

lemma sameInput_trans: "sameInput a b \<Longrightarrow> sameInput b c \<Longrightarrow> sameInput a c"
  by (simp add: sameInput_def)

lemma emit_recv: "concat (map recvLine (emit bs es)) = concat (map recvLine es)"
  by (induction bs es rule: emit.induct) simp_all

lemma netWrite_sameInput: "netWrite bs c = (n, e, c') \<Longrightarrow> sameInput c c'"
  by (auto simp: netWrite_def sameInput_def received_def emit_recv split: option.splits if_splits)

lemma bufio_Flush_sameInput: "bufio_Flush c = (e, c') \<Longrightarrow> sameInput c c'"
  by (auto simp: bufio_Flush_def sameInput_def received_def Let_def
           split: if_splits prod.splits dest!: netWrite_sameInput)

lemma bufio_WriteByte_sameInput: "bufio_WriteByte b c = (e, c') \<Longrightarrow> sameInput c c'"
  by (auto simp: bufio_WriteByte_def sameInput_def received_def
           split: if_splits prod.splits dest!: bufio_Flush_sameInput)

lemma snd_WriteByte_sameInput: "sameInput c (snd (bufio_WriteByte b c))"
  by (cases "bufio_WriteByte b c") (simp add: bufio_WriteByte_sameInput)

lemma dotStep_sameInput: "dotStep b st c = (st', c') \<Longrightarrow> sameInput c c'"
  using snd_WriteByte_sameInput [of c "CHR ''.''"]
        snd_WriteByte_sameInput [of c CR]
        snd_WriteByte_sameInput [of "snd (bufio_WriteByte CHR ''.'' c)" CR]
  by (auto simp: dotStep_def Let_def sameInput_refl split: if_splits intro: sameInput_trans)

lemma dotWriter_Write_sameInput: "dotWriter_Write bs st c = (n, e, st', c') \<Longrightarrow> sameInput c c'"
proof (induction bs arbitrary: st c n e st' c')
  case Nil
  then show ?case by (simp add: sameInput_refl)
next
  case (Cons b bs)
  obtain st1 c1 where 1: "dotStep b st c = (st1, c1)" by (cases "dotStep b st c")
  obtain e2 c2 where 2: "bufio_WriteByte b c1 = (e2, c2)" by (cases "bufio_WriteByte b c1")
  have s: "sameInput c c2"
    using dotStep_sameInput [OF 1] bufio_WriteByte_sameInput [OF 2] by (rule sameInput_trans)
  show ?case
  proof (cases e2)
    case (Some x)
    with Cons.prems 1 2 s show ?thesis by simp
  next
    case None
    obtain n3 e3 st3 c3 where 3: "dotWriter_Write bs st1 c2 = (n3, e3, st3, c3)"
      by (cases "dotWriter_Write bs st1 c2") auto
    with Cons.prems 1 2 None have "c' = c3" by simp
    with Cons.IH [OF 3] s show ?thesis by (auto intro: sameInput_trans)
  qed
qed

lemma io_Copy_sameInput: "io_Copy chunks rerr st c = (e, st', c') \<Longrightarrow> sameInput c c'"
proof (induction chunks arbitrary: st c)
  case Nil
  then show ?case by (simp add: sameInput_refl)
next
  case (Cons chunk chunks)
  obtain nw ew st1 c1 where 1: "dotWriter_Write chunk st c = (nw, ew, st1, c1)"
    by (cases "dotWriter_Write chunk st c") auto
  note s = dotWriter_Write_sameInput [OF 1]
  show ?case
  proof (cases "ew \<noteq> None \<or> nw \<noteq> length chunk")
    case True
    with Cons.prems 1 s show ?thesis by (auto split: if_splits)
  next
    case False
    with Cons.prems 1 have "io_Copy chunks rerr st1 c1 = (e, st', c')" by simp
    from Cons.IH [OF this] s show ?thesis by (rule sameInput_trans [rotated])
  qed
qed

lemma bufio_Flush_empties: "bufio_Flush c = (None, c') \<Longrightarrow> wbuf c' = []"
  by (auto simp: bufio_Flush_def Let_def split: if_splits prod.splits)

lemma ReadCodeLine_writes_nothing:
  "ReadCodeLine ex c = (code, msg, e, c') \<Longrightarrow> sent c' = sent c \<and> wbuf c' = wbuf c"
  by (auto simp: ReadCodeLine_def ReadLine_def sent_def split: list.splits prod.splits if_splits)

text \<open>
  What \<open>Post\<close> does, exchange by exchange. (1) When the answer to POST is not
  the status 340, \<open>Post\<close> returns the error of that status read and the
  connection as the read left it: nothing was sent after the POST line and
  nothing waits in the buffer. (2) When the answer is 340 and \<^verbatim>\<open>io.Copy\<close> into
  the dot writer returns an error, \<open>Post\<close> returns that error at once; no line
  was read since the 340. (3) When \<open>Post\<close> returns no error, the last event on
  the wire is the read of a status line of code 240. A write that fails after
  \<^verbatim>\<open>io.Copy\<close> has returned is not covered by (2): see below.
\<close>

lemma Post_exchanges:
  "(\<forall>c1 code msg e c2.
       PrintfLine ''POST'' c = (None, c1) \<longrightarrow> ReadCodeLine 340 c1 = (code, msg, Some e, c2) \<longrightarrow>
       Post c chunks rerr = (Some e, c2) \<and> sent c2 = sent c1 \<and> wbuf c2 = [])
   \<and> (\<forall>c1 code msg c2 e st c3.
       PrintfLine ''POST'' c = (None, c1) \<longrightarrow> ReadCodeLine 340 c1 = (code, msg, None, c2) \<longrightarrow>
       io_Copy chunks rerr wstateBegin c2 = (Some e, st, c3) \<longrightarrow>
       Post c chunks rerr = (Some e, c3) \<and> pending c3 = pending c2 \<and> received c3 = received c2)
   \<and> (\<forall>cf. Post c chunks rerr = (None, cf) \<longrightarrow>
         (\<exists>line rest. events cf = Recv line # rest \<and> take 4 line = ''240 ''))"
proof (intro conjI allI impI)
  fix c1 code msg e c2
  assume 1: "PrintfLine ''POST'' c = (None, c1)" and 2: "ReadCodeLine 340 c1 = (code, msg, Some e, c2)"
  then show "Post c chunks rerr = (Some e, c2)" by (simp add: Post_def)
  from ReadCodeLine_writes_nothing [OF 2] show "sent c2 = sent c1" by simp
  from 1 have "wbuf c1 = []" by (auto simp: PrintfLine_def dest: bufio_Flush_empties)
  with ReadCodeLine_writes_nothing [OF 2] show "wbuf c2 = []" by simp
next
  fix c1 code msg c2 e st c3
  assume 1: "PrintfLine ''POST'' c = (None, c1)" and 2: "ReadCodeLine 340 c1 = (code, msg, None, c2)"
    and 3: "io_Copy chunks rerr wstateBegin c2 = (Some e, st, c3)"
  then show "Post c chunks rerr = (Some e, c3)" by (simp add: Post_def)
  from io_Copy_sameInput [OF 3] show "pending c3 = pending c2" "received c3 = received c2"
    by (simp_all add: sameInput_def)
next
  fix cf
  assume ok: "Post c chunks rerr = (None, cf)"
  obtain e1 c1 where 1: "PrintfLine ''POST'' c = (e1, c1)" by (cases "PrintfLine ''POST'' c")
  obtain code msg e2 c2 where 2: "ReadCodeLine 340 c1 = (code, msg, e2, c2)"
    by (cases "ReadCodeLine 340 c1") auto
  obtain e3 st c3 where 3: "io_Copy chunks rerr wstateBegin c2 = (e3, st, c3)"
    by (cases "io_Copy chunks rerr wstateBegin c2") auto
  obtain e4 c4 where 4: "dotWriter_Close st c3 = (e4, c4)" by (cases "dotWriter_Close st c3")
  obtain code' msg' e5 c5 where 5: "ReadCodeLine 240 c4 = (code', msg', e5, c5)"
    by (cases "ReadCodeLine 240 c4") auto
  from ok 1 2 3 4 5 have "e5 = None" and "cf = c5"
    by (auto simp: Post_def split: if_splits)
  with 5 have r: "ReadCodeLine 240 c4 = (code', msg', None, cf)" by simp
  from ReadCodeLine_ok [OF r] obtain line rest where
    ev: "cf = c4\<lparr>pending := rest, events := Recv line # events c4\<rparr>"
    and pc: "parseCodeLine line 240 = (code', False, msg', None)"
    by blast
  from status_prefix [OF pc] have "take 4 line = ''240 ''" by (simp add: char_of_def)
  with ev show "\<exists>line rest. events cf = Recv line # rest \<and> take 4 line = ''240 ''" by simp
qed

lemma Post_exchanges_examples:
  "(fst (Post (server [''440 posting not allowed'']) [''Subject: x'' @ [LF]] None)
       = Some (StatusError 440 ''posting not allowed'')
    \<and> sent (snd (Post (server [''440 posting not allowed'']) [''Subject: x'' @ [LF]] None))
       = ''POST'' @ crnl)
   \<and> (fst (Post (server [''340 send article'', ''240 article received''])
                 [''Subject: x'' @ [LF]] (Some (OtherError ''read failed'')))
       = Some (OtherError ''read failed'')
    \<and> pending (snd (Post (server [''340 send article'', ''240 article received''])
                         [''Subject: x'' @ [LF]] (Some (OtherError ''read failed''))))
       = [''240 article received''])
   \<and> (fst (Post (server [''340 send article'', ''240 article received''])
                 [''Subject: x'' @ [LF]] None) = None
    \<and> hd (events (snd (Post (server [''340 send article'', ''240 article received''])
                            [''Subject: x'' @ [LF]] None)))
       = Recv ''240 article received'')"
proof (intro conjI)
  let ?body = "[''Subject: x'' @ [LF]]"
  let ?a = "server [''440 posting not allowed'']"
  let ?a1 = "snd (PrintfLine ''POST'' ?a)"
  let ?a2 = "snd (snd (snd (ReadCodeLine 340 ?a1)))"
  have a1: "PrintfLine ''POST'' ?a = (None, ?a1)" by (simp add: wire_defs)
  have a2: "ReadCodeLine 340 ?a1 = (440, ''posting not allowed'', Some (StatusError 440 ''posting not allowed''), ?a2)"
    by (simp add: wire_defs parse_defs)
  from Post_exchanges [of ?a ?body None] a1 a2
  have A: "Post ?a ?body None = (Some (StatusError 440 ''posting not allowed''), ?a2) \<and> sent ?a2 = sent ?a1"
    by blast
  then show "fst (Post ?a ?body None) = Some (StatusError 440 ''posting not allowed'')" by simp
  have "sent ?a1 = ''POST'' @ crnl" by (simp add: sent_def wire_defs)
  with A show "sent (snd (Post ?a ?body None)) = ''POST'' @ crnl" by simp
next
  let ?body = "[''Subject: x'' @ [LF]]"
  let ?rerr = "Some (OtherError ''read failed'')"
  let ?b = "server [''340 send article'', ''240 article received'']"
  let ?b1 = "snd (PrintfLine ''POST'' ?b)"
  let ?b2 = "snd (snd (snd (ReadCodeLine 340 ?b1)))"
  let ?st = "fst (snd (io_Copy ?body ?rerr wstateBegin ?b2))"
  let ?b3 = "snd (snd (io_Copy ?body ?rerr wstateBegin ?b2))"
  have b1: "PrintfLine ''POST'' ?b = (None, ?b1)" by (simp add: wire_defs)
  have b2: "ReadCodeLine 340 ?b1 = (340, ''send article'', None, ?b2)"
    by (simp add: wire_defs parse_defs)
  have b3: "io_Copy ?body ?rerr wstateBegin ?b2 = (Some (OtherError ''read failed''), ?st, ?b3)"
    by (simp add: wire_defs parse_defs post_defs)
  from Post_exchanges [of ?b ?body ?rerr] b1 b2 b3
  have B: "Post ?b ?body ?rerr = (Some (OtherError ''read failed''), ?b3) \<and> pending ?b3 = pending ?b2"
    by blast
  then show "fst (Post ?b ?body ?rerr) = Some (OtherError ''read failed'')" by simp
  have "pending ?b2 = [''240 article received'']" by (simp add: wire_defs parse_defs)
  with B show "pending (snd (Post ?b ?body ?rerr)) = [''240 article received'']" by simp
next
  let ?body = "[''Subject: x'' @ [LF]]"
  let ?b = "server [''340 send article'', ''240 article received'']"
  show "fst (Post ?b ?body None) = None"
    by (simp add: Post_def wire_defs parse_defs post_defs)
  then have "Post ?b ?body None = (None, snd (Post ?b ?body None))"
    by (cases "Post ?b ?body None") simp
  with Post_exchanges [of ?b ?body None]
  obtain line rest where e: "events (snd (Post ?b ?body None)) = Recv line # rest"
    and "take 4 line = ''240 ''"
    by blast
  have "hd (events (snd (Post ?b ?body None))) = Recv ''240 article received''"
    by (simp add: Post_def wire_defs parse_defs post_defs)
  then show "hd (events (snd (Post ?b ?body None))) = Recv ''240 article received''" .
qed

text \<open>
  C7. The claim: when the answer to POST is 340 and the write of the body
  fails, the error is returned at once and the final status is not read. The
  dot writer writes into the connection's buffer, which holds 4096 bytes: the
  write of a short article reaches the network only in the flush of
  \<^verbatim>\<open>w.Close()\<close>, and \<open>Post\<close> drops the result of \<^verbatim>\<open>w.Close()\<close> (client.go, line
  268), while it checks the one of \<^verbatim>\<open>io.Copy\<close> two lines above. On a network
  connection that accepts ten more bytes, the POST line and the four bytes
  \<^verbatim>\<open>Subj\<close> of the article are sent, the write of the rest fails, and \<open>Post\<close>
  goes on to read the final status: it returns no error when the server's 240
  is there to be read, and the error of the read, not the one of the write,
  when it is not.
\<close>

theorem Post_drops_write_error:
  "fst (Post ((server [''340 send article'', ''240 article received''])\<lparr>wlimit := Some 10\<rparr>)
            [''Subject: x'' @ [LF]] None) = None
   \<and> werr (snd (Post ((server [''340 send article'', ''240 article received''])\<lparr>wlimit := Some 10\<rparr>)
                      [''Subject: x'' @ [LF]] None)) = Some TransportError
   \<and> sent (snd (Post ((server [''340 send article'', ''240 article received''])\<lparr>wlimit := Some 10\<rparr>)
                      [''Subject: x'' @ [LF]] None)) = ''POST'' @ crnl @ ''Subj''
   \<and> received (snd (Post ((server [''340 send article'', ''240 article received''])\<lparr>wlimit := Some 10\<rparr>)
                          [''Subject: x'' @ [LF]] None))
       = [''240 article received'', ''340 send article'']
   \<and> fst (Post ((server [''340 send article''])\<lparr>wlimit := Some 10\<rparr>)
              [''Subject: x'' @ [LF]] None) = Some EOF"
  by (simp add: Post_def wire_defs parse_defs post_defs sent_def received_def)

end
